theory Spec2Isabelle
  imports Complex_Main "HOL-Library.Monad_Syntax"
begin

section \<open>The flood-risk dashboard: scoring function\<close>

text \<open>
  The development embeds \<^verbatim>\<open>src/flood_dashboard.py\<close>. Python's floats are modelled
  as the reals, so every statement below is about the exact arithmetic of the formulas;
  rounding of IEEE doubles is not modelled. A computation that raises an exception is
  the value \<open>None\<close>. The infinities, NaN and the unbounded ints, and the errors of
  \<^verbatim>\<open>/\<close> on them, are in a second embedding of the scoring function further down,
  which agrees with this one on finite values.
\<close>

subsection \<open>\<^verbatim>\<open>calculate_flood_risk\<close> (lines 60 to 124)\<close>

text \<open>
  The dict literal of lines 87 to 96. A subscript \<^verbatim>\<open>weights[k]\<close> raises
  \<^verbatim>\<open>KeyError\<close> when the key is absent, which is \<open>None\<close> here.
\<close>

definition weights :: "string \<rightharpoonup> real" where
  "weights = map_of
     [(''precipitation'', 0.30),
      (''flow_volume'', 0.25),
      (''humidity'', 0.15),
      (''flow_velocity'', 0.12),
      (''sediments'', 0.08),
      (''pressure'', 0.05),
      (''wind_speed'', 0.03),
      (''temperature'', 0.02)]"

text \<open>
  Lines 68 to 76: the normalised variables, one definition for each local variable.
  Python's \<^verbatim>\<open>/\<close> is true division, also on the integers the sliders give.
\<close>

definition norm_precipitation :: "real \<Rightarrow> real" where
  "norm_precipitation precipitation = min (precipitation / 200) 1"

definition norm_humidity :: "real \<Rightarrow> real" where
  "norm_humidity humidity = humidity / 100"

definition norm_flow_volume :: "real \<Rightarrow> real" where
  "norm_flow_volume flow_volume = min (flow_volume / 2000) 1"

definition norm_flow_velocity :: "real \<Rightarrow> real" where
  "norm_flow_velocity flow_velocity = min (flow_velocity / 10) 1"

definition norm_sediments :: "real \<Rightarrow> real" where
  "norm_sediments sediments = min (sediments / 500) 1"

definition norm_pressure :: "real \<Rightarrow> real" where
  "norm_pressure pressure = 1 - max 0 (min ((pressure - 980) / 40) 1)"

definition norm_wind_speed :: "real \<Rightarrow> real" where
  "norm_wind_speed wind_speed = min (wind_speed / 80) 1"

text \<open>Lines 79 to 84: the temperature branch that sets \<^verbatim>\<open>temp_risk\<close>.\<close>

definition temp_risk :: "real \<Rightarrow> real" where
  "temp_risk temperature =
     (if 26 \<le> temperature \<and> temperature \<le> 32 then 0.8
      else if temperature > 32 then 0.5
      else max 0 ((temperature - 15) / 15))"

text \<open>
  Lines 99 to 108: the value of \<^verbatim>\<open>risk\<close> before the synergy factors. The eight
  arguments are in the order of the source's signature.
\<close>

definition base_risk ::
  "real \<Rightarrow> real \<Rightarrow> real \<Rightarrow> real \<Rightarrow> real \<Rightarrow> real \<Rightarrow> real \<Rightarrow> real \<Rightarrow> real option" where
  "base_risk pressure humidity precipitation flow_velocity
             wind_speed temperature sediments flow_volume =
     do {
       w_precipitation \<leftarrow> weights ''precipitation'';
       w_flow_volume \<leftarrow> weights ''flow_volume'';
       w_humidity \<leftarrow> weights ''humidity'';
       w_flow_velocity \<leftarrow> weights ''flow_velocity'';
       w_sediments \<leftarrow> weights ''sediments'';
       w_pressure \<leftarrow> weights ''pressure'';
       w_wind_speed \<leftarrow> weights ''wind_speed'';
       w_temperature \<leftarrow> weights ''temperature'';
       Some (norm_precipitation precipitation * w_precipitation +
             norm_flow_volume flow_volume * w_flow_volume +
             norm_humidity humidity * w_humidity +
             norm_flow_velocity flow_velocity * w_flow_velocity +
             norm_sediments sediments * w_sediments +
             norm_pressure pressure * w_pressure +
             norm_wind_speed wind_speed * w_wind_speed +
             temp_risk temperature * w_temperature)
     }"

text \<open>
  Lines 111 to 121: the four conditional updates \<^verbatim>\<open>risk *= c\<close>, one after the
  other, each testing the raw arguments.
\<close>

definition synergy ::
  "real \<Rightarrow> real \<Rightarrow> real \<Rightarrow> real \<Rightarrow> real \<Rightarrow> real \<Rightarrow> real \<Rightarrow> real" where
  "synergy risk pressure humidity precipitation flow_velocity sediments flow_volume =
     (let risk = (if precipitation > 100 \<and> humidity > 90 then risk * 1.25 else risk);
          risk = (if flow_volume > 1200 \<and> flow_velocity > 5 then risk * 1.3 else risk);
          risk = (if sediments > 300 \<and> flow_volume > 800 then risk * 1.15 else risk);
          risk = (if pressure < 990 \<and> precipitation > 80 then risk * 1.2 else risk)
      in risk)"

text \<open>The whole function; its last line is the clamp of line 124.\<close>

definition calculate_flood_risk ::
  "real \<Rightarrow> real \<Rightarrow> real \<Rightarrow> real \<Rightarrow> real \<Rightarrow> real \<Rightarrow> real \<Rightarrow> real \<Rightarrow> real option" where
  "calculate_flood_risk pressure humidity precipitation flow_velocity
                        wind_speed temperature sediments flow_volume =
     do {
       risk \<leftarrow> base_risk pressure humidity precipitation flow_velocity
                 wind_speed temperature sediments flow_volume;
       let risk = synergy risk pressure humidity precipitation flow_velocity
                    sediments flow_volume;
       Some (min (max (risk * 100) 0) 100)
     }"

subsection \<open>The script around it (lines 168 to 238)\<close>

text \<open>
  The eight module-level variables the sliders of lines 168 to 186 set. The field names
  carry the units of the slider labels, so that they do not clash with the argument
  names above.
\<close>

record ParameterSet =
  pressure_hPa :: real
  humidity_pct :: real
  precipitation_mm :: real
  flow_velocity_mps :: real
  wind_speed_kmh :: real
  temperature_C :: real
  sediments_mgL :: real
  flow_volume_m3s :: real

text \<open>Lines 193 to 200 and 203 to 210: what either preset button assigns.\<close>

definition riesgo_bajo :: ParameterSet where
  "riesgo_bajo =
     \<lparr>pressure_hPa = 1015, humidity_pct = 60, precipitation_mm = 10,
      flow_velocity_mps = 1.5, wind_speed_kmh = 8, temperature_C = 20,
      sediments_mgL = 30, flow_volume_m3s = 200\<rparr>"

definition riesgo_critico :: ParameterSet where
  "riesgo_critico =
     \<lparr>pressure_hPa = 985, humidity_pct = 95, precipitation_mm = 180,
      flow_velocity_mps = 7.5, wind_speed_kmh = 55, temperature_C = 29,
      sediments_mgL = 400, flow_volume_m3s = 1800\<rparr>"

text \<open>
  Lines 192 to 210: the two \<^verbatim>\<open>if\<close> statements in their order. A pressed button
  assigns all eight variables, so the whole record is replaced.
\<close>

definition presets :: "bool \<Rightarrow> bool \<Rightarrow> ParameterSet \<Rightarrow> ParameterSet" where
  "presets bajo_pressed critico_pressed ps =
     (let ps = (if bajo_pressed then riesgo_bajo else ps);
          ps = (if critico_pressed then riesgo_critico else ps)
      in ps)"

text \<open>Lines 215 and 216: the call, with the arguments in the positions of the source.\<close>

definition flood_risk :: "ParameterSet \<Rightarrow> real option" where
  "flood_risk ps =
     calculate_flood_risk (pressure_hPa ps) (humidity_pct ps) (precipitation_mm ps)
       (flow_velocity_mps ps) (wind_speed_kmh ps) (temperature_C ps)
       (sediments_mgL ps) (flow_volume_m3s ps)"

text \<open>
  Lines 219 to 238: the category. The source's strings are BAJO, MODERADO, ALTO and
  CRITICO (with an accent); the specification calls them LOW, MODERATE, HIGH and
  CRITICAL. The colour, emoji and message set in the same branches are presentation.
\<close>

datatype risk_category = BAJO | MODERADO | ALTO | CRITICO

definition category :: "real \<Rightarrow> risk_category" where
  "category flood_risk_value =
     (if flood_risk_value < 30 then BAJO
      else if flood_risk_value < 60 then MODERADO
      else if flood_risk_value < 80 then ALTO
      else CRITICO)"


section \<open>The synthetic series\<close>

subsection \<open>The libraries, as far as the generator uses them\<close>

text \<open>
  numpy is not code of the repository: what the generator uses of it is a parameter of
  the model. \<open>np_pi\<close> and \<open>np_sin\<close> are \<^verbatim>\<open>np.pi\<close> and \<^verbatim>\<open>np.sin\<close> on one
  element. \<open>'g\<close> is the hidden state of the global random generator;
  \<open>rng_seed np n\<close> is the state \<^verbatim>\<open>np.random.seed(n)\<close> leaves, and a draw takes its
  two distribution parameters, the size and the state, and returns the array and the
  state after it.
\<close>

record 'g numpy =
  np_pi :: real
  np_sin :: "real \<Rightarrow> real"
  rng_seed :: "int \<Rightarrow> 'g"
  rng_gamma :: "real \<Rightarrow> real \<Rightarrow> nat \<Rightarrow> 'g \<Rightarrow> real list \<times> 'g"
  rng_normal :: "real \<Rightarrow> real \<Rightarrow> nat \<Rightarrow> 'g \<Rightarrow> real list \<times> 'g"

text \<open>numpy's contract that a draw of size \<open>n\<close> is an array of \<open>n\<close> values.\<close>

definition numpy_ok :: "'g numpy \<Rightarrow> bool" where
  "numpy_ok np =
     (\<forall>a b n g. length (fst (rng_gamma np a b n g)) = n \<and>
                length (fst (rng_normal np a b n g)) = n)"

text \<open>
  An instance of the interface to run the model on: the state is a counter, a draw of
  size \<open>n\<close> returns \<open>n\<close> values computed from it, and the sine is its cubic
  approximation.
\<close>

definition counter_np :: "nat numpy" where
  "counter_np =
     \<lparr>np_pi = 355 / 113,
      np_sin = (\<lambda>x. x - x ^ 3 / 6),
      rng_seed = (\<lambda>n. nat \<bar>n\<bar>),
      rng_gamma = (\<lambda>a b n g. (map (\<lambda>i. a * b + real (g + i)) [0..<n], g + n)),
      rng_normal = (\<lambda>m sd n g. (map (\<lambda>i. m + sd * real (g + i)) [0..<n], g + n))\<rparr>"

text \<open>
  What a call can read and change outside its arguments: the global generator, and the
  clock \<^verbatim>\<open>datetime.now()\<close> reads (microseconds since the epoch).
\<close>

record 'g world =
  rng :: 'g
  now :: int

definition hour :: int where
  "hour = 3600000000"

text \<open>
  \<^verbatim>\<open>pd.date_range(end=e, periods=n, freq='H')\<close>: \<open>n\<close> instants one hour apart, the
  last of them \<open>e\<close>.
\<close>

definition date_range :: "int \<Rightarrow> nat \<Rightarrow> int list" where
  "date_range e periods = map (\<lambda>i. e - (int periods - 1 - int i) * hour) [0..<periods]"

definition arange :: "nat \<Rightarrow> real list" where
  "arange n = map real [0..<n]"

text \<open>\<^verbatim>\<open>np.clip\<close> and \<^verbatim>\<open>Series.clip\<close> on one element.\<close>

definition clip :: "real \<Rightarrow> real \<Rightarrow> real \<Rightarrow> real" where
  "clip x lo hi = min (max x lo) hi"

text \<open>
  The frame, by columns. \<^verbatim>\<open>pd.DataFrame(data)\<close> raises \<^verbatim>\<open>ValueError\<close> unless all
  arrays of the dict have one length.
\<close>

record frame =
  fecha :: "int list"
  precipitacion :: "real list"
  temperatura :: "real list"
  humedad :: "real list"
  presion :: "real list"
  viento :: "real list"
  caudal :: "real list"

record risk_frame = frame +
  riesgo :: "real list"

definition DataFrame :: "frame \<Rightarrow> frame option" where
  "DataFrame data =
     (let n = length (fecha data)
      in if length (precipitacion data) = n \<and> length (temperatura data) = n \<and>
            length (humedad data) = n \<and> length (presion data) = n \<and>
            length (viento data) = n \<and> length (caudal data) = n
         then Some data else None)"

definition nrows :: "'a frame_scheme \<Rightarrow> nat" where
  "nrows df = length (fecha df)"

subsection \<open>\<^verbatim>\<open>generate_historical_data\<close> (lines 129 to 153)\<close>

text \<open>
  Lines 148 to 151: \<^verbatim>\<open>df.apply(..., axis=1)\<close> calls the scoring function on every
  row, with 2.0 for the flow velocity and 50 for the sediments; an exception in one row
  is an exception of the whole.
\<close>

definition apply_risk :: "frame \<Rightarrow> real list option" where
  "apply_risk df =
     those (map (\<lambda>i. calculate_flood_risk (presion df ! i) (humedad df ! i)
                        (precipitacion df ! i) 2.0 (viento df ! i) (temperatura df ! i)
                        50 (caudal df ! i))
                [0..<nrows df])"

text \<open>
  The function. The seed 42 is fixed in the body (line 131); \<open>days\<close> has the default 30
  in the source. The values of the dict are evaluated in the order they are written, so
  the generator's state runs through the six draws in that order. A negative size makes
  the libraries raise \<^verbatim>\<open>ValueError\<close>, after the seeding. The frame of zero rows
  (\<open>days = 0\<close>) is modelled like the others; no statement below is about it.
\<close>

definition generate_historical_data ::
  "'g numpy \<Rightarrow> int \<Rightarrow> 'g world \<Rightarrow> risk_frame option \<times> 'g world" where
  "generate_historical_data np days w =
     (let g0 = rng_seed np 42;
          n = days * 24
      in if n < 0 then (None, w\<lparr>rng := g0\<rparr>)
         else
           let periods = nat n;
               dates = date_range (now w) periods;
               (gam, g1) = rng_gamma np 2 15 periods g0;
               (noise_t, g2) = rng_normal np 0 2 periods g1;
               (noise_h, g3) = rng_normal np 0 15 periods g2;
               (noise_p, g4) = rng_normal np 0 10 periods g3;
               (wind, g5) = rng_normal np 15 10 periods g4;
               (noise_c, g6) = rng_normal np 0 100 periods g5;
               data =
                 \<lparr>fecha = dates,
                  precipitacion = gam,
                  temperatura =
                    map2 (+) (map (\<lambda>i. 15 + 10 * np_sin np (i * 2 * np_pi np / 24)) (arange periods))
                      noise_t,
                  humedad = map (\<lambda>x. clip (60 + x) 30 100) noise_h,
                  presion = map (\<lambda>x. 1013 + x) noise_p,
                  viento = map abs wind,
                  caudal =
                    map2 (+)
                      (map (\<lambda>i. 300 + 200 * np_sin np (i * 2 * np_pi np / (24 * 7))) (arange periods))
                      noise_c\<rparr>
           in (do {
                 df \<leftarrow> DataFrame data;
                 let df = df\<lparr>caudal := map (\<lambda>x. clip x 50 2000) (caudal df)\<rparr>;
                 r \<leftarrow> apply_risk df;
                 Some (frame.extend df \<lparr>riesgo = r\<rparr>)
               }, w\<lparr>rng := g6\<rparr>))"


section \<open>The base risk in the words of the specification\<close>

text \<open>
  Section 4.1, steps 1 and 2, written from the specification and not from the code, to
  be compared with \<open>base_risk\<close>. The arguments are in the order of the source's
  signature; the two lists are in the order in which step 2 names the weights:
  precipitation, flow volume, humidity, flow velocity, sediments, pressure, wind speed,
  temperature.
\<close>

definition clamp :: "real \<Rightarrow> real \<Rightarrow> real \<Rightarrow> real" where
  "clamp x lo hi = (if x < lo then lo else if hi < x then hi else x)"

definition capped_at_1 :: "real \<Rightarrow> real" where
  "capped_at_1 x = (if 1 < x then 1 else x)"

definition spec_temperature :: "real \<Rightarrow> real" where
  "spec_temperature t =
     (if 26 \<le> t \<and> t \<le> 32 then 0.8
      else if 32 < t then 0.5
      else max 0 ((t - 15) / 15))"

definition spec_normalized ::
  "real \<Rightarrow> real \<Rightarrow> real \<Rightarrow> real \<Rightarrow> real \<Rightarrow> real \<Rightarrow> real \<Rightarrow> real \<Rightarrow> real list" where
  "spec_normalized pressure humidity precipitation flow_velocity
                   wind_speed temperature sediments flow_volume =
     [capped_at_1 (precipitation / 200),
      capped_at_1 (flow_volume / 2000),
      humidity / 100,
      capped_at_1 (flow_velocity / 10),
      capped_at_1 (sediments / 500),
      1 - clamp ((pressure - 980) / 40) 0 1,
      capped_at_1 (wind_speed / 80),
      spec_temperature temperature]"

definition spec_weights :: "real list" where
  "spec_weights = [0.30, 0.25, 0.15, 0.12, 0.08, 0.05, 0.03, 0.02]"

definition spec_base_risk ::
  "real \<Rightarrow> real \<Rightarrow> real \<Rightarrow> real \<Rightarrow> real \<Rightarrow> real \<Rightarrow> real \<Rightarrow> real \<Rightarrow> real" where
  "spec_base_risk pressure humidity precipitation flow_velocity
                  wind_speed temperature sediments flow_volume =
     sum_list (map2 (*)
       (spec_normalized pressure humidity precipitation flow_velocity
          wind_speed temperature sediments flow_volume)
       spec_weights)"


section \<open>The scoring function on Python's numbers\<close>

text \<open>
  The definitions above take every argument as a real number. Python's numbers have
  more values and one more way to fail: a float is finite, an infinity or NaN; an int is
  unbounded; and \<^verbatim>\<open>/\<close> raises \<^verbatim>\<open>ZeroDivisionError\<close> on a zero divisor and
  \<^verbatim>\<open>OverflowError\<close> when an int operand or an int quotient is beyond the floats.
  This section writes lines 60 to 124 once more over these values, operation by
  operation, to state which inputs make the function raise. Finite arithmetic stays
  exact, and the two zeros of the floats are one.
\<close>

subsection \<open>Values and operations\<close>

datatype py_float = Fin real | PInf | NInf | NaN

datatype py_num = PyInt int | PyFloat py_float

text \<open>
  An int converts to a float, and an int quotient is a float, when its magnitude is
  below \<open>2 ^ 1024 - 2 ^ 970\<close>, the first value that rounds beyond the largest float.
\<close>

definition float_limit :: real where
  "float_limit = 2 ^ 1024 - 2 ^ 970"

fun fneg :: "py_float \<Rightarrow> py_float" where
  "fneg (Fin x) = Fin (- x)"
| "fneg PInf = NInf"
| "fneg NInf = PInf"
| "fneg NaN = NaN"

fun fadd :: "py_float \<Rightarrow> py_float \<Rightarrow> py_float" where
  "fadd (Fin x) (Fin y) = Fin (x + y)"
| "fadd NaN _ = NaN"
| "fadd _ NaN = NaN"
| "fadd PInf NInf = NaN"
| "fadd NInf PInf = NaN"
| "fadd PInf _ = PInf"
| "fadd _ PInf = PInf"
| "fadd NInf _ = NInf"
| "fadd _ NInf = NInf"

fun fmul :: "py_float \<Rightarrow> py_float \<Rightarrow> py_float" where
  "fmul (Fin x) (Fin y) = Fin (x * y)"
| "fmul NaN _ = NaN"
| "fmul _ NaN = NaN"
| "fmul (Fin x) PInf = (if x = 0 then NaN else if 0 < x then PInf else NInf)"
| "fmul (Fin x) NInf = (if x = 0 then NaN else if 0 < x then NInf else PInf)"
| "fmul PInf (Fin y) = (if y = 0 then NaN else if 0 < y then PInf else NInf)"
| "fmul NInf (Fin y) = (if y = 0 then NaN else if 0 < y then NInf else PInf)"
| "fmul PInf PInf = PInf"
| "fmul NInf NInf = PInf"
| "fmul PInf NInf = NInf"
| "fmul NInf PInf = NInf"

text \<open>The quotient of two floats, for a divisor that is not zero.\<close>

fun fquot :: "py_float \<Rightarrow> py_float \<Rightarrow> py_float" where
  "fquot (Fin x) (Fin y) = Fin (x / y)"
| "fquot NaN _ = NaN"
| "fquot _ NaN = NaN"
| "fquot (Fin x) PInf = Fin 0"
| "fquot (Fin x) NInf = Fin 0"
| "fquot PInf (Fin y) = (if 0 < y then PInf else NInf)"
| "fquot NInf (Fin y) = (if 0 < y then NInf else PInf)"
| "fquot PInf PInf = NaN"
| "fquot PInf NInf = NaN"
| "fquot NInf PInf = NaN"
| "fquot NInf NInf = NaN"

text \<open>Comparisons: every comparison with NaN is false.\<close>

fun flt :: "py_float \<Rightarrow> py_float \<Rightarrow> bool" where
  "flt (Fin x) (Fin y) = (x < y)"
| "flt NaN _ = False"
| "flt _ NaN = False"
| "flt NInf NInf = False"
| "flt NInf _ = True"
| "flt _ NInf = False"
| "flt PInf _ = False"
| "flt _ PInf = True"

fun fle :: "py_float \<Rightarrow> py_float \<Rightarrow> bool" where
  "fle (Fin x) (Fin y) = (x \<le> y)"
| "fle NaN _ = False"
| "fle _ NaN = False"
| "fle NInf _ = True"
| "fle _ PInf = True"
| "fle _ _ = False"

text \<open>
  Python's \<^verbatim>\<open>min(a, b)\<close> is \<open>b\<close> if \<^verbatim>\<open>b < a\<close> and \<open>a\<close> otherwise, and
  \<^verbatim>\<open>max(a, b)\<close> is \<open>b\<close> if \<^verbatim>\<open>b > a\<close> and \<open>a\<close> otherwise, so that a NaN in the
  first place stays and a NaN in the second place is dropped. Where the source passes an
  int literal (0, 1 or 100) and the result is that literal, the result is here the float
  equal to it.
\<close>

definition fmin :: "py_float \<Rightarrow> py_float \<Rightarrow> py_float" where
  "fmin a b = (if flt b a then b else a)"

definition fmax :: "py_float \<Rightarrow> py_float \<Rightarrow> py_float" where
  "fmax a b = (if flt a b then b else a)"

text \<open>
  The number an int or a float stands for. Python compares an int with a float by
  their exact values, without converting, so a comparison never raises.
\<close>

fun exact :: "py_num \<Rightarrow> py_float" where
  "exact (PyInt i) = Fin (real_of_int i)"
| "exact (PyFloat f) = f"

definition py_lt :: "py_num \<Rightarrow> py_num \<Rightarrow> bool" where
  "py_lt a b = flt (exact a) (exact b)"

definition py_le :: "py_num \<Rightarrow> py_num \<Rightarrow> bool" where
  "py_le a b = fle (exact a) (exact b)"

text \<open>The conversion of an operand of mixed arithmetic; \<open>None\<close> is \<^verbatim>\<open>OverflowError\<close>.\<close>

fun to_float :: "py_num \<Rightarrow> py_float option" where
  "to_float (PyInt i) =
     (if \<bar>real_of_int i\<bar> < float_limit then Some (Fin (real_of_int i)) else None)"
| "to_float (PyFloat f) = Some f"

text \<open>
  \<^verbatim>\<open>a / b\<close>: of two ints, the quotient as a float, or \<^verbatim>\<open>ZeroDivisionError\<close>, or
  \<^verbatim>\<open>OverflowError\<close> when the quotient is too large; otherwise the quotient of the
  operands as floats.
\<close>

fun py_truediv :: "py_num \<Rightarrow> py_num \<Rightarrow> py_float option" where
  "py_truediv (PyInt a) (PyInt b) =
     (if b = 0 then None
      else if float_limit \<le> \<bar>real_of_int a / real_of_int b\<bar> then None
      else Some (Fin (real_of_int a / real_of_int b)))"
| "py_truediv a b =
     do {
       x \<leftarrow> to_float a;
       y \<leftarrow> to_float b;
       if y = Fin 0 then None else Some (fquot x y)
     }"

text \<open>\<^verbatim>\<open>a - b\<close>: of two ints an int, exactly; otherwise the difference as floats.\<close>

fun py_sub :: "py_num \<Rightarrow> py_num \<Rightarrow> py_num option" where
  "py_sub (PyInt a) (PyInt b) = Some (PyInt (a - b))"
| "py_sub a b =
     do {
       x \<leftarrow> to_float a;
       y \<leftarrow> to_float b;
       Some (PyFloat (fadd x (fneg y)))
     }"

subsection \<open>\<^verbatim>\<open>calculate_flood_risk\<close> on these values\<close>

text \<open>Lines 68 to 76.\<close>

definition norm_precipitation_py :: "py_num \<Rightarrow> py_float option" where
  "norm_precipitation_py precipitation =
     do { q \<leftarrow> py_truediv precipitation (PyInt 200); Some (fmin q (Fin 1)) }"

definition norm_humidity_py :: "py_num \<Rightarrow> py_float option" where
  "norm_humidity_py humidity = py_truediv humidity (PyInt 100)"

definition norm_flow_volume_py :: "py_num \<Rightarrow> py_float option" where
  "norm_flow_volume_py flow_volume =
     do { q \<leftarrow> py_truediv flow_volume (PyInt 2000); Some (fmin q (Fin 1)) }"

definition norm_flow_velocity_py :: "py_num \<Rightarrow> py_float option" where
  "norm_flow_velocity_py flow_velocity =
     do { q \<leftarrow> py_truediv flow_velocity (PyInt 10); Some (fmin q (Fin 1)) }"

definition norm_sediments_py :: "py_num \<Rightarrow> py_float option" where
  "norm_sediments_py sediments =
     do { q \<leftarrow> py_truediv sediments (PyInt 500); Some (fmin q (Fin 1)) }"

definition norm_pressure_py :: "py_num \<Rightarrow> py_float option" where
  "norm_pressure_py pressure =
     do {
       d \<leftarrow> py_sub pressure (PyInt 980);
       q \<leftarrow> py_truediv d (PyInt 40);
       Some (fadd (Fin 1) (fneg (fmax (Fin 0) (fmin q (Fin 1)))))
     }"

definition norm_wind_speed_py :: "py_num \<Rightarrow> py_float option" where
  "norm_wind_speed_py wind_speed =
     do { q \<leftarrow> py_truediv wind_speed (PyInt 80); Some (fmin q (Fin 1)) }"

text \<open>Lines 79 to 84. The division is evaluated in the last branch only.\<close>

definition temp_risk_py :: "py_num \<Rightarrow> py_float option" where
  "temp_risk_py temperature =
     (if py_le (PyInt 26) temperature \<and> py_le temperature (PyInt 32) then Some (Fin 0.8)
      else if py_lt (PyInt 32) temperature then Some (Fin 0.5)
      else do {
        d \<leftarrow> py_sub temperature (PyInt 15);
        q \<leftarrow> py_truediv d (PyInt 15);
        Some (fmax (Fin 0) q)
      })"

text \<open>
  Lines 68 to 108, in the order of the source: the seven normalised variables, the
  temperature term, and the sum, which Python adds from left to right.
\<close>

definition base_risk_py ::
  "py_num \<Rightarrow> py_num \<Rightarrow> py_num \<Rightarrow> py_num \<Rightarrow> py_num \<Rightarrow> py_num \<Rightarrow> py_num \<Rightarrow> py_num
     \<Rightarrow> py_float option" where
  "base_risk_py pressure humidity precipitation flow_velocity
                wind_speed temperature sediments flow_volume =
     do {
       n_precipitation \<leftarrow> norm_precipitation_py precipitation;
       n_humidity \<leftarrow> norm_humidity_py humidity;
       n_flow_volume \<leftarrow> norm_flow_volume_py flow_volume;
       n_flow_velocity \<leftarrow> norm_flow_velocity_py flow_velocity;
       n_sediments \<leftarrow> norm_sediments_py sediments;
       n_pressure \<leftarrow> norm_pressure_py pressure;
       n_wind_speed \<leftarrow> norm_wind_speed_py wind_speed;
       t_risk \<leftarrow> temp_risk_py temperature;
       w_precipitation \<leftarrow> weights ''precipitation'';
       w_flow_volume \<leftarrow> weights ''flow_volume'';
       w_humidity \<leftarrow> weights ''humidity'';
       w_flow_velocity \<leftarrow> weights ''flow_velocity'';
       w_sediments \<leftarrow> weights ''sediments'';
       w_pressure \<leftarrow> weights ''pressure'';
       w_wind_speed \<leftarrow> weights ''wind_speed'';
       w_temperature \<leftarrow> weights ''temperature'';
       Some (fadd (fadd (fadd (fadd (fadd (fadd (fadd
               (fmul n_precipitation (Fin w_precipitation))
               (fmul n_flow_volume (Fin w_flow_volume)))
               (fmul n_humidity (Fin w_humidity)))
               (fmul n_flow_velocity (Fin w_flow_velocity)))
               (fmul n_sediments (Fin w_sediments)))
               (fmul n_pressure (Fin w_pressure)))
               (fmul n_wind_speed (Fin w_wind_speed)))
               (fmul t_risk (Fin w_temperature)))
     }"

text \<open>Lines 111 to 121.\<close>

definition synergy_py ::
  "py_float \<Rightarrow> py_num \<Rightarrow> py_num \<Rightarrow> py_num \<Rightarrow> py_num \<Rightarrow> py_num \<Rightarrow> py_num \<Rightarrow> py_float" where
  "synergy_py risk pressure humidity precipitation flow_velocity sediments flow_volume =
     (let risk = (if py_lt (PyInt 100) precipitation \<and> py_lt (PyInt 90) humidity
                  then fmul risk (Fin 1.25) else risk);
          risk = (if py_lt (PyInt 1200) flow_volume \<and> py_lt (PyInt 5) flow_velocity
                  then fmul risk (Fin 1.3) else risk);
          risk = (if py_lt (PyInt 300) sediments \<and> py_lt (PyInt 800) flow_volume
                  then fmul risk (Fin 1.15) else risk);
          risk = (if py_lt pressure (PyInt 990) \<and> py_lt (PyInt 80) precipitation
                  then fmul risk (Fin 1.2) else risk)
      in risk)"

text \<open>The whole function, with the clamp of line 124.\<close>

definition calculate_flood_risk_py ::
  "py_num \<Rightarrow> py_num \<Rightarrow> py_num \<Rightarrow> py_num \<Rightarrow> py_num \<Rightarrow> py_num \<Rightarrow> py_num \<Rightarrow> py_num
     \<Rightarrow> py_float option" where
  "calculate_flood_risk_py pressure humidity precipitation flow_velocity
                           wind_speed temperature sediments flow_volume =
     do {
       risk \<leftarrow> base_risk_py pressure humidity precipitation flow_velocity
                 wind_speed temperature sediments flow_volume;
       let risk = synergy_py risk pressure humidity precipitation flow_velocity
                    sediments flow_volume;
       Some (fmin (fmax (fmul risk (Fin 100)) (Fin 0)) (Fin 100))
     }"

text \<open>
  A well-typed numeric input: a float, whatever its value, or an int within the range of
  the floats.
\<close>

fun well_typed :: "py_num \<Rightarrow> bool" where
  "well_typed (PyInt i) = (\<bar>real_of_int i\<bar> < float_limit)"
| "well_typed (PyFloat f) = True"

section \<open>Properties of the scoring function\<close>

subsection \<open>The function in closed form\<close>

lemmas norm_defs = norm_precipitation_def norm_humidity_def norm_flow_volume_def
  norm_flow_velocity_def norm_sediments_def norm_pressure_def norm_wind_speed_def

text \<open>Every subscript of \<open>weights\<close> in the body finds its key.\<close>

lemma base_risk_eq:
  "base_risk pressure humidity precipitation flow_velocity
     wind_speed temperature sediments flow_volume =
   Some (norm_precipitation precipitation * 0.30 +
         norm_flow_volume flow_volume * 0.25 +
         norm_humidity humidity * 0.15 +
         norm_flow_velocity flow_velocity * 0.12 +
         norm_sediments sediments * 0.08 +
         norm_pressure pressure * 0.05 +
         norm_wind_speed wind_speed * 0.03 +
         temp_risk temperature * 0.02)"
  by (simp add: base_risk_def weights_def)

lemma synergy_eq:
  "synergy risk pressure humidity precipitation flow_velocity sediments flow_volume =
     risk * (if precipitation > 100 \<and> humidity > 90 then 1.25 else 1)
          * (if flow_volume > 1200 \<and> flow_velocity > 5 then 1.3 else 1)
          * (if sediments > 300 \<and> flow_volume > 800 then 1.15 else 1)
          * (if pressure < 990 \<and> precipitation > 80 then 1.2 else 1)"
  by (simp add: synergy_def Let_def)

lemma calculate_flood_risk_eq:
  "calculate_flood_risk pressure humidity precipitation flow_velocity
     wind_speed temperature sediments flow_volume =
   Some (min (max (synergy
       (norm_precipitation precipitation * 0.30 +
        norm_flow_volume flow_volume * 0.25 +
        norm_humidity humidity * 0.15 +
        norm_flow_velocity flow_velocity * 0.12 +
        norm_sediments sediments * 0.08 +
        norm_pressure pressure * 0.05 +
        norm_wind_speed wind_speed * 0.03 +
        temp_risk temperature * 0.02)
       pressure humidity precipitation flow_velocity sediments flow_volume * 100) 0) 100)"
  by (simp add: calculate_flood_risk_def base_risk_eq)

subsection \<open>Range of the score\<close>

text \<open>
  C1. For every valid parameter set (humidity in \<open>[0, 100]\<close>; precipitation, flow
  velocity, wind speed, sediments and flow volume not negative; pressure and temperature
  any number, as section 3 of the specification declares them) the function returns a
  score, and the score lies between 0 and 100 inclusive.
\<close>

theorem score_in_range:
  assumes "0 \<le> humidity" "humidity \<le> 100" "0 \<le> precipitation" "0 \<le> flow_velocity"
    "0 \<le> wind_speed" "0 \<le> sediments" "0 \<le> flow_volume"
  shows "\<exists>s. calculate_flood_risk pressure humidity precipitation flow_velocity
               wind_speed temperature sediments flow_volume = Some s \<and>
             0 \<le> s \<and> s \<le> 100"
  by (simp add: calculate_flood_risk_eq)

theorem score_in_range_witness:
  "\<exists>s. calculate_flood_risk 1000 83 50 2 18 25 50 504 = Some s \<and> 0 \<le> s \<and> s \<le> 100"
  using score_in_range [of 83 50 2 18 50 504 1000 25] by simp

subsection \<open>The base risk\<close>

text \<open>
  C2. For every parameter set, the base risk (the value of \<^verbatim>\<open>risk\<close> before the
  synergy multipliers) is the weighted sum of the normalised variables as section 4.1 of
  the specification words them; the weights the code looks up are 0.30, 0.25, 0.15,
  0.12, 0.08, 0.05, 0.03 and 0.02 for precipitation, flow volume, humidity, flow
  velocity, sediments, pressure, wind speed and temperature, and they sum to 1.
\<close>

theorem base_risk_is_weighted_sum:
  "base_risk pressure humidity precipitation flow_velocity
     wind_speed temperature sediments flow_volume =
   Some (spec_base_risk pressure humidity precipitation flow_velocity
     wind_speed temperature sediments flow_volume) \<and>
   map weights [''precipitation'', ''flow_volume'', ''humidity'', ''flow_velocity'',
                ''sediments'', ''pressure'', ''wind_speed'', ''temperature''] =
   map Some spec_weights \<and>
   sum_list spec_weights = 1"
proof -
  have cap: "capped_at_1 x = min x 1" for x
    by (simp add: capped_at_1_def min_def)
  have cl: "clamp x 0 1 = max 0 (min x 1)" for x
    by (simp add: clamp_def min_def max_def)
  have t: "spec_temperature x = temp_risk x" for x
    by (simp add: spec_temperature_def temp_risk_def)
  have "spec_base_risk pressure humidity precipitation flow_velocity
          wind_speed temperature sediments flow_volume =
        norm_precipitation precipitation * 0.30 +
        norm_flow_volume flow_volume * 0.25 +
        norm_humidity humidity * 0.15 +
        norm_flow_velocity flow_velocity * 0.12 +
        norm_sediments sediments * 0.08 +
        norm_pressure pressure * 0.05 +
        norm_wind_speed wind_speed * 0.03 +
        temp_risk temperature * 0.02"
    by (simp add: spec_base_risk_def spec_normalized_def spec_weights_def cap cl t norm_defs)
  then have "base_risk pressure humidity precipitation flow_velocity
      wind_speed temperature sediments flow_volume =
    Some (spec_base_risk pressure humidity precipitation flow_velocity
      wind_speed temperature sediments flow_volume)"
    by (simp only: base_risk_eq)
  moreover have "map weights [''precipitation'', ''flow_volume'', ''humidity'',
      ''flow_velocity'', ''sediments'', ''pressure'', ''wind_speed'', ''temperature''] =
    map Some spec_weights"
    by (simp add: weights_def spec_weights_def)
  moreover have "sum_list spec_weights = 1"
    by (simp add: spec_weights_def)
  ultimately show ?thesis by blast
qed

subsection \<open>Categories\<close>

text \<open>
  C4. The category of a score \<open>s\<close> is BAJO (LOW) iff \<open>s < 30\<close>, MODERADO (MODERATE)
  iff \<open>30 \<le> s < 60\<close>, ALTO (HIGH) iff \<open>60 \<le> s < 80\<close> and CRITICO (CRITICAL) iff
  \<open>80 \<le> s\<close>; a score exactly at 30, 60 or 80 is in the higher category.
\<close>

theorem category_thresholds:
  "(category s = BAJO \<longleftrightarrow> s < 30) \<and>
   (category s = MODERADO \<longleftrightarrow> 30 \<le> s \<and> s < 60) \<and>
   (category s = ALTO \<longleftrightarrow> 60 \<le> s \<and> s < 80) \<and>
   (category s = CRITICO \<longleftrightarrow> 80 \<le> s) \<and>
   category 30 = MODERADO \<and> category 60 = ALTO \<and> category 80 = CRITICO"
  by (simp add: category_def)

subsection \<open>Synergy multipliers\<close>

text \<open>
  C3. Each of the four synergy multipliers (1.25 for precipitation above 100 and
  humidity above 90; 1.30 for flow volume above 1200 and flow velocity above 5; 1.15
  for sediments above 300 and flow volume above 800; 1.20 for pressure below 990 and
  precipitation above 80) is a factor of the risk exactly when both of its conditions
  hold, and the factor 1 otherwise; the conditions test the raw arguments; the factors
  that apply are multiplied together; the score is the clamp of 100 times that product.
  With precipitation 150, humidity 50 gets no factor 1.25 and humidity 95 gets it: with
  the other six arguments at the sliders' defaults the scores are the base risk times
  100, and the base risk times 1.25 times 100.
\<close>

theorem synergy_multipliers:
  "synergy risk pressure humidity precipitation flow_velocity sediments flow_volume =
     risk * (if precipitation > 100 \<and> humidity > 90 then 1.25 else 1)
          * (if flow_volume > 1200 \<and> flow_velocity > 5 then 1.3 else 1)
          * (if sediments > 300 \<and> flow_volume > 800 then 1.15 else 1)
          * (if pressure < 990 \<and> precipitation > 80 then 1.2 else 1) \<and>
   calculate_flood_risk pressure humidity precipitation flow_velocity
       wind_speed temperature sediments flow_volume =
     map_option
       (\<lambda>b. min (max (synergy b pressure humidity precipitation flow_velocity
                        sediments flow_volume * 100) 0) 100)
       (base_risk pressure humidity precipitation flow_velocity
          wind_speed temperature sediments flow_volume) \<and>
   synergy risk pressure 50 150 flow_velocity sediments flow_volume =
     risk * (if flow_volume > 1200 \<and> flow_velocity > 5 then 1.3 else 1)
          * (if sediments > 300 \<and> flow_volume > 800 then 1.15 else 1)
          * (if pressure < 990 then 1.2 else 1) \<and>
   synergy risk pressure 95 150 flow_velocity sediments flow_volume =
     risk * 1.25
          * (if flow_volume > 1200 \<and> flow_velocity > 5 then 1.3 else 1)
          * (if sediments > 300 \<and> flow_volume > 800 then 1.15 else 1)
          * (if pressure < 990 then 1.2 else 1) \<and>
   base_risk 1000 50 150 2 18 25 50 504 = Some (5281 / 12000) \<and>
   calculate_flood_risk 1000 50 150 2 18 25 50 504 = Some (5281 / 12000 * 100) \<and>
   base_risk 1000 95 150 2 18 25 50 504 = Some (6091 / 12000) \<and>
   calculate_flood_risk 1000 95 150 2 18 25 50 504 = Some (6091 / 12000 * 1.25 * 100)"
proof -
  have 1: "calculate_flood_risk pressure humidity precipitation flow_velocity
       wind_speed temperature sediments flow_volume =
     map_option
       (\<lambda>b. min (max (synergy b pressure humidity precipitation flow_velocity
                        sediments flow_volume * 100) 0) 100)
       (base_risk pressure humidity precipitation flow_velocity
          wind_speed temperature sediments flow_volume)"
    by (simp add: calculate_flood_risk_eq base_risk_eq)
  have 2: "synergy risk pressure 50 150 flow_velocity sediments flow_volume =
     risk * (if flow_volume > 1200 \<and> flow_velocity > 5 then 1.3 else 1)
          * (if sediments > 300 \<and> flow_volume > 800 then 1.15 else 1)
          * (if pressure < 990 then 1.2 else 1)"
    by (simp add: synergy_eq)
  have 3: "synergy risk pressure 95 150 flow_velocity sediments flow_volume =
     risk * 1.25
          * (if flow_volume > 1200 \<and> flow_velocity > 5 then 1.3 else 1)
          * (if sediments > 300 \<and> flow_volume > 800 then 1.15 else 1)
          * (if pressure < 990 then 1.2 else 1)"
    by (simp add: synergy_eq)
  have 4: "base_risk 1000 50 150 2 18 25 50 504 = Some (5281 / 12000)"
    by (simp add: base_risk_eq norm_defs temp_risk_def)
  have 5: "calculate_flood_risk 1000 50 150 2 18 25 50 504 = Some (5281 / 12000 * 100)"
    by (simp add: calculate_flood_risk_eq synergy_eq norm_defs temp_risk_def)
  have 6: "base_risk 1000 95 150 2 18 25 50 504 = Some (6091 / 12000)"
    by (simp add: base_risk_eq norm_defs temp_risk_def)
  have 7: "calculate_flood_risk 1000 95 150 2 18 25 50 504 = Some (6091 / 12000 * 1.25 * 100)"
    by (simp add: calculate_flood_risk_eq synergy_eq norm_defs temp_risk_def)
  show ?thesis
    using synergy_eq 1 2 3 4 5 6 7 by blast
qed

subsection \<open>Monotonicity in the precipitation\<close>

lemma norm_precipitation_mono:
  "p1 \<le> p2 \<Longrightarrow> norm_precipitation p1 \<le> norm_precipitation p2"
  by (simp add: norm_precipitation_def min_def divide_right_mono)

lemma synergy_mono:
  assumes "0 \<le> r1" "r1 \<le> r2" "p1 \<le> p2"
  shows "synergy r1 pressure humidity p1 flow_velocity sediments flow_volume
       \<le> synergy r2 pressure humidity p2 flow_velocity sediments flow_volume"
proof -
  define a1 :: real where "a1 = (if p1 > 100 \<and> humidity > 90 then 1.25 else 1)"
  define a2 :: real where "a2 = (if p2 > 100 \<and> humidity > 90 then 1.25 else 1)"
  define b :: real where "b = (if flow_volume > 1200 \<and> flow_velocity > 5 then 1.3 else 1)"
  define c :: real where "c = (if sediments > 300 \<and> flow_volume > 800 then 1.15 else 1)"
  define d1 :: real where "d1 = (if pressure < 990 \<and> p1 > 80 then 1.2 else 1)"
  define d2 :: real where "d2 = (if pressure < 990 \<and> p2 > 80 then 1.2 else 1)"
  have a: "0 \<le> a1" "a1 \<le> a2" using assms(3) by (auto simp: a1_def a2_def)
  have d: "0 \<le> d1" "d1 \<le> d2" using assms(3) by (auto simp: d1_def d2_def)
  have b: "0 \<le> b" by (simp add: b_def)
  have c: "0 \<le> c" by (simp add: c_def)
  have s1: "r1 * a1 \<le> r2 * a2" "0 \<le> r1 * a1"
    using assms a by (auto intro: mult_mono)
  have s2: "r1 * a1 * b \<le> r2 * a2 * b" "0 \<le> r1 * a1 * b"
    using s1 b by (auto intro: mult_right_mono)
  have s3: "r1 * a1 * b * c \<le> r2 * a2 * b * c" "0 \<le> r1 * a1 * b * c"
    using s2 c by (auto intro: mult_right_mono)
  have "0 \<le> r2 * a2 * b * c"
    using s3 by linarith
  with s3 d have "r1 * a1 * b * c * d1 \<le> r2 * a2 * b * c * d2"
    by (auto intro: mult_mono)
  then show ?thesis
    unfolding synergy_eq a1_def a2_def b_def c_def d1_def d2_def .
qed

text \<open>
  C5. With the other seven parameters fixed at valid values, the score does not decrease
  when the precipitation grows within \<open>[0, 200]\<close>: for \<open>0 \<le> p1 \<le> p2 \<le> 200\<close> both
  calls return a score and the first is at most the second. The thresholds 80 and 100
  of the synergy conditions lie inside the interval.
\<close>

theorem score_monotone_in_precipitation:
  assumes "0 \<le> humidity" "humidity \<le> 100" "0 \<le> flow_velocity"
    "0 \<le> wind_speed" "0 \<le> sediments" "0 \<le> flow_volume"
    and "0 \<le> p1" "p1 \<le> p2" "p2 \<le> 200"
  shows "\<exists>s1 s2.
           calculate_flood_risk pressure humidity p1 flow_velocity
             wind_speed temperature sediments flow_volume = Some s1 \<and>
           calculate_flood_risk pressure humidity p2 flow_velocity
             wind_speed temperature sediments flow_volume = Some s2 \<and>
           s1 \<le> s2"
proof -
  define b where "b p =
        norm_precipitation p * 0.30 +
        norm_flow_volume flow_volume * 0.25 +
        norm_humidity humidity * 0.15 +
        norm_flow_velocity flow_velocity * 0.12 +
        norm_sediments sediments * 0.08 +
        norm_pressure pressure * 0.05 +
        norm_wind_speed wind_speed * 0.03 +
        temp_risk temperature * 0.02" for p
  define score where "score p =
        min (max (synergy (b p) pressure humidity p flow_velocity sediments flow_volume
                  * 100) 0) 100" for p
  have score: "calculate_flood_risk pressure humidity p flow_velocity
      wind_speed temperature sediments flow_volume = Some (score p)" for p
    unfolding score_def b_def by (rule calculate_flood_risk_eq)
  have terms: "0 \<le> norm_precipitation p1" "0 \<le> norm_flow_volume flow_volume"
    "0 \<le> norm_humidity humidity" "0 \<le> norm_flow_velocity flow_velocity"
    "0 \<le> norm_sediments sediments" "0 \<le> norm_pressure pressure"
    "0 \<le> norm_wind_speed wind_speed" "0 \<le> temp_risk temperature"
    using assms(1-7) by (simp_all add: norm_defs temp_risk_def)
  have b1: "0 \<le> b p1"
    unfolding b_def using terms by simp
  have b12: "b p1 \<le> b p2"
    unfolding b_def using norm_precipitation_mono [OF assms(8)] by simp
  have "synergy (b p1) pressure humidity p1 flow_velocity sediments flow_volume
      \<le> synergy (b p2) pressure humidity p2 flow_velocity sediments flow_volume"
    using b1 b12 assms(8) by (rule synergy_mono)
  then have "score p1 \<le> score p2"
    unfolding score_def by (simp add: min_def max_def)
  then show ?thesis
    using score by blast
qed

theorem score_monotone_in_precipitation_witness:
  "\<exists>s1 s2. calculate_flood_risk 985 95 80 2 18 25 50 504 = Some s1 \<and>
           calculate_flood_risk 985 95 105 2 18 25 50 504 = Some s2 \<and> s1 \<le> s2"
  using score_monotone_in_precipitation [of 95 2 18 50 504 80 105 985 25] by simp

subsection \<open>The two presets\<close>

text \<open>
  C6. Whatever the sliders hold, after the low-risk button the score is
  \<open>10123 / 600\<close> (about 16.87) and its category is BAJO (LOW); after the critical-risk
  button the score is 100, its category is CRITICO (CRITICAL), and all four synergy
  conditions hold on the preset's values, so that the risk is multiplied by all four
  factors.
\<close>

theorem preset_scenarios:
  "flood_risk (presets True False ps) = Some (10123 / 600) \<and>
   category (10123 / 600) = BAJO \<and>
   flood_risk (presets False True ps) = Some 100 \<and>
   category 100 = CRITICO \<and>
   precipitation_mm riesgo_critico > 100 \<and> humidity_pct riesgo_critico > 90 \<and>
   flow_volume_m3s riesgo_critico > 1200 \<and> flow_velocity_mps riesgo_critico > 5 \<and>
   sediments_mgL riesgo_critico > 300 \<and> flow_volume_m3s riesgo_critico > 800 \<and>
   pressure_hPa riesgo_critico < 990 \<and> precipitation_mm riesgo_critico > 80 \<and>
   synergy risk (pressure_hPa riesgo_critico) (humidity_pct riesgo_critico)
     (precipitation_mm riesgo_critico) (flow_velocity_mps riesgo_critico)
     (sediments_mgL riesgo_critico) (flow_volume_m3s riesgo_critico) =
     risk * 1.25 * 1.3 * 1.15 * 1.2"
proof -
  have 1: "flood_risk (presets True False ps) = Some (10123 / 600)"
    by (simp add: flood_risk_def presets_def riesgo_bajo_def calculate_flood_risk_eq
        synergy_eq norm_defs temp_risk_def)
  have 2: "flood_risk (presets False True ps) = Some 100"
    by (simp add: flood_risk_def presets_def riesgo_critico_def calculate_flood_risk_eq
        synergy_eq norm_defs temp_risk_def)
  have 3: "category (10123 / 600) = BAJO" "category 100 = CRITICO"
    by (simp_all add: category_def)
  have 4: "precipitation_mm riesgo_critico > 100 \<and> humidity_pct riesgo_critico > 90 \<and>
   flow_volume_m3s riesgo_critico > 1200 \<and> flow_velocity_mps riesgo_critico > 5 \<and>
   sediments_mgL riesgo_critico > 300 \<and> flow_volume_m3s riesgo_critico > 800 \<and>
   pressure_hPa riesgo_critico < 990 \<and> precipitation_mm riesgo_critico > 80"
    by (simp add: riesgo_critico_def)
  have 5: "synergy risk (pressure_hPa riesgo_critico) (humidity_pct riesgo_critico)
     (precipitation_mm riesgo_critico) (flow_velocity_mps riesgo_critico)
     (sediments_mgL riesgo_critico) (flow_volume_m3s riesgo_critico) =
     risk * 1.25 * 1.3 * 1.15 * 1.2"
    by (simp add: synergy_eq riesgo_critico_def)
  show ?thesis using 1 2 3 4 5 by simp
qed

subsection \<open>Totality and the caps\<close>


subsection \<open>The function on Python's numbers\<close>

text \<open>
  For well-typed inputs no operation of the body raises, and every stage is a function
  of the exact values of its arguments.
\<close>

lemma float_limit_large: "1000000 < float_limit"
  by (simp add: float_limit_def)

lemma fmin_Fin: "fmin (Fin a) (Fin b) = Fin (min a b)"
  by (simp add: fmin_def min_def)

lemma fmax_Fin: "fmax (Fin a) (Fin b) = Fin (max a b)"
  by (simp add: fmax_def max_def)

lemma abs_quotient_le:
  fixes a c :: real
  assumes "1 \<le> c"
  shows "\<bar>a / c\<bar> \<le> \<bar>a\<bar>"
proof -
  have "\<bar>a / c\<bar> = \<bar>a\<bar> / c" using assms by simp
  also have "\<dots> \<le> \<bar>a\<bar> / 1" using assms by (intro divide_left_mono) auto
  finally show ?thesis by simp
qed

text \<open>Division by a positive int literal.\<close>

lemma py_truediv_Fin:
  assumes "0 < c" "real_of_int c < float_limit"
  shows "py_truediv (PyFloat f) (PyInt c) = Some (fquot f (Fin (real_of_int c)))"
  using assms by simp

lemma py_truediv_int:
  assumes "1 \<le> c" "\<bar>real_of_int a\<bar> < float_limit"
  shows "py_truediv (PyInt a) (PyInt c) = Some (Fin (real_of_int a / real_of_int c))"
proof -
  have "\<bar>real_of_int a / real_of_int c\<bar> \<le> \<bar>real_of_int a\<bar>"
    using assms(1) by (intro abs_quotient_le) simp
  then show ?thesis using assms by simp
qed

lemma py_truediv_literal:
  assumes "well_typed x" "1 \<le> c" "real_of_int c < float_limit"
  shows "py_truediv x (PyInt c) = Some (fquot (exact x) (Fin (real_of_int c)))"
proof (cases x)
  case (PyInt a)
  then show ?thesis using assms py_truediv_int [of c a] by simp
next
  case (PyFloat f)
  then show ?thesis using assms py_truediv_Fin [of c f] by simp
qed


lemma py_sub_truediv_literal:
  assumes "well_typed x" "0 \<le> c" "real_of_int c \<le> 1000" "2 \<le> k"
    "real_of_int k < float_limit"
  shows "(py_sub x (PyInt c) \<bind> (\<lambda>d. py_truediv d (PyInt k) \<bind> g)) =
         g (fquot (fadd (exact x) (fneg (Fin (real_of_int c)))) (Fin (real_of_int k)))"
proof (cases x)
  case (PyInt a)
  have a: "\<bar>real_of_int a\<bar> < float_limit"
    using assms(1) PyInt by simp
  have k: "2 \<le> real_of_int k" using assms(4) by simp
  have "\<bar>real_of_int (a - c) / real_of_int k\<bar> = \<bar>real_of_int a - real_of_int c\<bar> / real_of_int k"
    using k by simp
  also have "\<dots> \<le> (\<bar>real_of_int a\<bar> + real_of_int c) / real_of_int k"
    using k assms(2) by (intro divide_right_mono) auto
  also have "\<dots> \<le> (\<bar>real_of_int a\<bar> + real_of_int c) / 2"
    using k assms(2) by (intro divide_left_mono) auto
  also have "\<dots> < float_limit"
    using a assms(3) float_limit_large by simp
  finally have "\<not> float_limit \<le> \<bar>real_of_int (a - c) / real_of_int k\<bar>"
    by simp
  then show ?thesis
    using PyInt assms(4) by simp
next
  case (PyFloat f)
  have "\<bar>real_of_int c\<bar> < float_limit"
    using assms(2,3) float_limit_large by simp
  then show ?thesis
    using PyFloat assms(4,5) by simp
qed

lemma norm_precipitation_py_eq:
  "well_typed x \<Longrightarrow>
   norm_precipitation_py x = Some (fmin (fquot (exact x) (Fin 200)) (Fin 1))"
  using py_truediv_literal [of x 200] float_limit_large
  by (simp add: norm_precipitation_py_def)

lemma norm_humidity_py_eq:
  "well_typed x \<Longrightarrow> norm_humidity_py x = Some (fquot (exact x) (Fin 100))"
  using py_truediv_literal [of x 100] float_limit_large
  by (simp add: norm_humidity_py_def)

lemma norm_flow_volume_py_eq:
  "well_typed x \<Longrightarrow>
   norm_flow_volume_py x = Some (fmin (fquot (exact x) (Fin 2000)) (Fin 1))"
  using py_truediv_literal [of x 2000] float_limit_large
  by (simp add: norm_flow_volume_py_def)

lemma norm_flow_velocity_py_eq:
  "well_typed x \<Longrightarrow>
   norm_flow_velocity_py x = Some (fmin (fquot (exact x) (Fin 10)) (Fin 1))"
  using py_truediv_literal [of x 10] float_limit_large
  by (simp add: norm_flow_velocity_py_def)

lemma norm_sediments_py_eq:
  "well_typed x \<Longrightarrow>
   norm_sediments_py x = Some (fmin (fquot (exact x) (Fin 500)) (Fin 1))"
  using py_truediv_literal [of x 500] float_limit_large
  by (simp add: norm_sediments_py_def)

lemma norm_wind_speed_py_eq:
  "well_typed x \<Longrightarrow>
   norm_wind_speed_py x = Some (fmin (fquot (exact x) (Fin 80)) (Fin 1))"
  using py_truediv_literal [of x 80] float_limit_large
  by (simp add: norm_wind_speed_py_def)

lemma norm_pressure_py_eq:
  "well_typed x \<Longrightarrow>
   norm_pressure_py x =
     Some (fadd (Fin 1) (fneg (fmax (Fin 0)
        (fmin (fquot (fadd (exact x) (fneg (Fin 980))) (Fin 40)) (Fin 1)))))"
  using py_sub_truediv_literal [of x 980 40] float_limit_large
  by (simp add: norm_pressure_py_def)

lemma temp_risk_py_eq:
  assumes "well_typed x"
  shows "temp_risk_py x =
     Some (if fle (Fin 26) (exact x) \<and> fle (exact x) (Fin 32) then Fin 0.8
           else if flt (Fin 32) (exact x) then Fin 0.5
           else fmax (Fin 0) (fquot (fadd (exact x) (fneg (Fin 15))) (Fin 15)))"
proof -
  have "py_sub x (PyInt 15) \<bind>
          (\<lambda>d. py_truediv d (PyInt 15) \<bind> (\<lambda>q. Some (fmax (Fin 0) q))) =
        Some (fmax (Fin 0) (fquot (fadd (exact x) (fneg (Fin 15))) (Fin 15)))"
    using py_sub_truediv_literal [of x 15 15 "\<lambda>q. Some (fmax (Fin 0) q)"]
      assms float_limit_large by simp
  then show ?thesis
    by (simp add: temp_risk_py_def py_le_def py_lt_def)
qed

lemma base_risk_py_eq:
  assumes "well_typed pressure" "well_typed humidity" "well_typed precipitation"
    "well_typed flow_velocity" "well_typed wind_speed" "well_typed temperature"
    "well_typed sediments" "well_typed flow_volume"
  shows "base_risk_py pressure humidity precipitation flow_velocity
           wind_speed temperature sediments flow_volume =
         Some (fadd (fadd (fadd (fadd (fadd (fadd (fadd
               (fmul (the (norm_precipitation_py precipitation)) (Fin 0.30))
               (fmul (the (norm_flow_volume_py flow_volume)) (Fin 0.25)))
               (fmul (the (norm_humidity_py humidity)) (Fin 0.15)))
               (fmul (the (norm_flow_velocity_py flow_velocity)) (Fin 0.12)))
               (fmul (the (norm_sediments_py sediments)) (Fin 0.08)))
               (fmul (the (norm_pressure_py pressure)) (Fin 0.05)))
               (fmul (the (norm_wind_speed_py wind_speed)) (Fin 0.03)))
               (fmul (the (temp_risk_py temperature)) (Fin 0.02)))"
  using assms
  by (simp add: base_risk_py_def weights_def norm_precipitation_py_eq norm_humidity_py_eq
      norm_flow_volume_py_eq norm_flow_velocity_py_eq norm_sediments_py_eq
      norm_pressure_py_eq norm_wind_speed_py_eq temp_risk_py_eq)


text \<open>On finite values the function is the one on the reals.\<close>

lemma synergy_py_Fin:
  assumes "exact pressure = Fin p" "exact humidity = Fin h" "exact precipitation = Fin r"
    "exact flow_velocity = Fin v" "exact sediments = Fin s" "exact flow_volume = Fin q"
  shows "synergy_py (Fin b) pressure humidity precipitation flow_velocity sediments flow_volume
       = Fin (synergy b p h r v s q)"
proof -
  have steps: "(let risk = (if c1 then fmul (Fin b) (Fin 1.25) else Fin b);
              risk = (if c2 then fmul risk (Fin 1.3) else risk);
              risk = (if c3 then fmul risk (Fin 1.15) else risk);
              risk = (if c4 then fmul risk (Fin 1.2) else risk)
          in risk) =
         Fin (let risk = (if c1 then b * 1.25 else b);
              risk = (if c2 then risk * 1.3 else risk);
              risk = (if c3 then risk * 1.15 else risk);
              risk = (if c4 then risk * 1.2 else risk)
          in risk)" for c1 c2 c3 c4
    by (cases c1; cases c2; cases c3; cases c4) (simp_all add: Let_def)
  show ?thesis
    unfolding synergy_py_def synergy_def py_lt_def assms exact.simps flt.simps of_int_numeral
    by (rule steps)
qed

lemma calculate_flood_risk_py_finite:
  assumes "well_typed pressure" "well_typed humidity" "well_typed precipitation"
    "well_typed flow_velocity" "well_typed wind_speed" "well_typed temperature"
    "well_typed sediments" "well_typed flow_volume"
    and "exact pressure = Fin p" "exact humidity = Fin h" "exact precipitation = Fin r"
    "exact flow_velocity = Fin v" "exact wind_speed = Fin w" "exact temperature = Fin t"
    "exact sediments = Fin s" "exact flow_volume = Fin q"
  shows "calculate_flood_risk_py pressure humidity precipitation flow_velocity
           wind_speed temperature sediments flow_volume =
         map_option Fin (calculate_flood_risk p h r v w t s q)"
proof -
  have b: "base_risk_py pressure humidity precipitation flow_velocity
           wind_speed temperature sediments flow_volume =
        Some (Fin (norm_precipitation r * 0.30 +
         norm_flow_volume q * 0.25 +
         norm_humidity h * 0.15 +
         norm_flow_velocity v * 0.12 +
         norm_sediments s * 0.08 +
         norm_pressure p * 0.05 +
         norm_wind_speed w * 0.03 +
         temp_risk t * 0.02))"
    using assms(9-16)
    unfolding base_risk_py_eq [OF assms(1-8)]
    by (simp add: assms(1-8) norm_precipitation_py_eq norm_humidity_py_eq
      norm_flow_volume_py_eq norm_flow_velocity_py_eq norm_sediments_py_eq
      norm_pressure_py_eq norm_wind_speed_py_eq temp_risk_py_eq fmin_Fin fmax_Fin
      norm_defs temp_risk_def)
  show ?thesis
    unfolding calculate_flood_risk_py_def b calculate_flood_risk_eq
    by (simp add: synergy_py_Fin [OF assms(9,10,11,12,15,16)] fmin_Fin fmax_Fin)
qed




text \<open>
  Outside the well-typed inputs: an int beyond the floats makes line 68 raise
  \<^verbatim>\<open>OverflowError\<close>. Inside them, a NaN precipitation is no error, and the value
  returned is NaN.
\<close>

lemma overflow_example:
  "calculate_flood_risk_py (PyInt 1000) (PyInt 83) (PyInt (10 ^ 311)) (PyFloat (Fin 2))
     (PyInt 18) (PyInt 25) (PyInt 50) (PyInt 504) = None"
  by (simp add: calculate_flood_risk_py_def base_risk_py_def norm_precipitation_py_def
      float_limit_def)

lemma nan_example:
  "calculate_flood_risk_py (PyInt 1000) (PyInt 83) (PyFloat NaN) (PyFloat (Fin 2))
     (PyInt 18) (PyInt 25) (PyInt 50) (PyInt 504) = Some NaN"
proof -
  have wt: "well_typed (PyInt 1000)" "well_typed (PyInt 83)" "well_typed (PyFloat NaN)"
    "well_typed (PyFloat (Fin 2))" "well_typed (PyInt 18)" "well_typed (PyInt 25)"
    "well_typed (PyInt 50)" "well_typed (PyInt 504)"
    using float_limit_large by simp_all
  show ?thesis
    unfolding calculate_flood_risk_py_def base_risk_py_eq [OF wt(1,2,3,4,5,6,7,8)]
    by (simp add: wt norm_precipitation_py_eq norm_humidity_py_eq
      norm_flow_volume_py_eq norm_flow_velocity_py_eq norm_sediments_py_eq
      norm_pressure_py_eq norm_wind_speed_py_eq temp_risk_py_eq fmin_def fmax_def
      synergy_py_def py_lt_def)
qed



subsection \<open>Temperature\<close>

text \<open>
  C10. The score is not monotone in the temperature: with the other seven parameters at
  the sliders' defaults, the score at 32 degrees is \<open>1369 / 40\<close> and the score at 33
  degrees is \<open>269 / 8\<close>, which is smaller; the temperature term drops from 0.8 to 0.5
  there.
\<close>

theorem score_not_monotone_in_temperature:
  "(32::real) < 33 \<and>
   calculate_flood_risk 1000 83 50 2 18 32 50 504 = Some (1369 / 40) \<and>
   calculate_flood_risk 1000 83 50 2 18 33 50 504 = Some (269 / 8) \<and>
   (269 / 8 :: real) < 1369 / 40 \<and>
   temp_risk 32 = 0.8 \<and> temp_risk 33 = 0.5"
  by (simp add: calculate_flood_risk_eq synergy_eq norm_defs temp_risk_def)

section \<open>Properties of the synthetic series\<close>

subsection \<open>What a call returns\<close>

lemma counter_np_ok: "numpy_ok counter_np"
  by (simp add: numpy_ok_def counter_np_def)

lemma numpy_ok_length:
  assumes "numpy_ok np"
  shows "length (fst (rng_gamma np a b n g)) = n" "length (fst (rng_normal np a b n g)) = n"
  using assms by (simp_all add: numpy_ok_def)

lemma those_map_Some: "those (map (\<lambda>i. Some (f i)) xs) = Some (map f xs)"
  by (induction xs) simp_all

text \<open>No row makes the scoring function raise, so \<open>apply\<close> returns a column.\<close>

lemma apply_risk_eq:
  "apply_risk df =
     Some (map (\<lambda>i. the (calculate_flood_risk (presion df ! i) (humedad df ! i)
                        (precipitacion df ! i) 2.0 (viento df ! i) (temperatura df ! i)
                        50 (caudal df ! i)))
                [0..<nrows df])"
  unfolding apply_risk_def calculate_flood_risk_eq 
  by (simp add: those_map_Some)

lemma length_date_range: "length (date_range e n) = n"
  by (simp add: date_range_def)

lemma date_range_step:
  "Suc i < n \<Longrightarrow> date_range e n ! Suc i = date_range e n ! i + hour"
  by (simp add: date_range_def algebra_simps)

lemma date_range_last: "0 < n \<Longrightarrow> last (date_range e n) = e"
  by (simp add: date_range_def last_map)

text \<open>
  With a library that keeps its contract and \<open>days\<close> not negative, the call returns a
  frame; its columns have \<open>days * 24\<close> entries, and in another world the call returns
  the same frame but for the timestamps.
\<close>

lemma generate_columns:
  assumes ok: "numpy_ok np" and days: "0 \<le> days"
  shows "\<exists>df. fst (generate_historical_data np days w) = Some df \<and>
              fecha df = date_range (now w) (nat (days * 24)) \<and>
              length (precipitacion df) = nat (days * 24) \<and>
              length (temperatura df) = nat (days * 24) \<and>
              length (humedad df) = nat (days * 24) \<and>
              length (presion df) = nat (days * 24) \<and>
              length (viento df) = nat (days * 24) \<and>
              length (caudal df) = nat (days * 24) \<and>
              length (riesgo df) = nat (days * 24) \<and>
              fst (generate_historical_data np days w') =
                Some (df\<lparr>fecha := date_range (now w') (nat (days * 24))\<rparr>)"
proof -
  note len = numpy_ok_length [OF ok] length_date_range
  have "\<not> days * 24 < 0" using days by simp
  then show ?thesis
    unfolding generate_historical_data_def Let_def
    apply (simp only: if_False case_prod_beta fst_conv)
    apply (simp add: DataFrame_def len arange_def apply_risk_eq nrows_def frame.defs)
    done
qed

subsection \<open>Length and order\<close>

text \<open>
  C9. For every positive \<open>days\<close> (the seed is fixed in the body), in every world, the
  call returns a frame of exactly \<open>days * 24\<close> rows: every column has that length. The
  rows are consecutive hourly points: each timestamp is one hour after the one before,
  and the last is the clock's reading.
\<close>

theorem series_length:
  assumes "numpy_ok np" and "0 < days"
  shows "\<exists>df. fst (generate_historical_data np days w) = Some df \<and>
              int (nrows df) = days * 24 \<and>
              length (precipitacion df) = nrows df \<and>
              length (temperatura df) = nrows df \<and>
              length (humedad df) = nrows df \<and>
              length (presion df) = nrows df \<and>
              length (viento df) = nrows df \<and>
              length (caudal df) = nrows df \<and>
              length (riesgo df) = nrows df \<and>
              (\<forall>i. Suc i < nrows df \<longrightarrow> fecha df ! Suc i = fecha df ! i + hour) \<and>
              last (fecha df) = now w"
proof -
  from assms obtain df where
    df: "fst (generate_historical_data np days w) = Some df"
      "fecha df = date_range (now w) (nat (days * 24))"
    and len: "length (precipitacion df) = nat (days * 24)"
      "length (temperatura df) = nat (days * 24)"
      "length (humedad df) = nat (days * 24)"
      "length (presion df) = nat (days * 24)"
      "length (viento df) = nat (days * 24)"
      "length (caudal df) = nat (days * 24)"
      "length (riesgo df) = nat (days * 24)"
    using generate_columns [of np days w w] by auto
  have pos: "0 < nat (days * 24)" using assms(2) by simp
  show ?thesis
    using assms(2) df len date_range_last [OF pos]
    by (simp add: nrows_def length_date_range date_range_step)
qed

theorem series_length_witness:
  "\<exists>df. fst (generate_historical_data counter_np 30 \<lparr>rng = 7, now = 0\<rparr>) = Some df \<and>
        nrows df = 720 \<and> length (riesgo df) = 720 \<and> last (fecha df) = 0"
  using series_length [OF counter_np_ok, of 30 "\<lparr>rng = 7, now = 0\<rparr>"] by auto

subsection \<open>Reproducibility\<close>

text \<open>
  C8. Two calls with the same \<open>days\<close> (and so with the same seed, 42, which the body
  sets on every call) return frames with identical precipitation, temperature, humidity,
  pressure, wind, flow volume and risk columns, whatever state the global generator was
  in and whatever the clock read at either call: in particular when the second call
  starts in the world the first one left, at a later time.
\<close>

theorem same_seed_same_series:
  assumes "numpy_ok np" and "0 < days"
  shows "\<exists>df1 df2.
           fst (generate_historical_data np days w1) = Some df1 \<and>
           fst (generate_historical_data np days w2) = Some df2 \<and>
           precipitacion df1 = precipitacion df2 \<and>
           temperatura df1 = temperatura df2 \<and>
           humedad df1 = humedad df2 \<and>
           presion df1 = presion df2 \<and>
           viento df1 = viento df2 \<and>
           caudal df1 = caudal df2 \<and>
           riesgo df1 = riesgo df2"
proof -
  from assms obtain df where
    "fst (generate_historical_data np days w1) = Some df"
    "fst (generate_historical_data np days w2) =
       Some (df\<lparr>fecha := date_range (now w2) (nat (days * 24))\<rparr>)"
    using generate_columns [of np days w1 w2] by auto
  then show ?thesis by simp
qed

theorem same_seed_same_series_witness:
  "\<exists>df1 df2.
     fst (generate_historical_data counter_np 30 \<lparr>rng = 7, now = 0\<rparr>) = Some df1 \<and>
     fst (generate_historical_data counter_np 30
            ((snd (generate_historical_data counter_np 30 \<lparr>rng = 7, now = 0\<rparr>))
               \<lparr>now := 5 * hour\<rparr>)) = Some df2 \<and>
     precipitacion df1 = precipitacion df2 \<and>
     temperatura df1 = temperatura df2 \<and>
     humedad df1 = humedad df2 \<and>
     presion df1 = presion df2 \<and>
     viento df1 = viento df2 \<and>
     caudal df1 = caudal df2 \<and>
     riesgo df1 = riesgo df2"
  using same_seed_same_series [OF counter_np_ok, of 30 "\<lparr>rng = 7, now = 0\<rparr>"
      "(snd (generate_historical_data counter_np 30 \<lparr>rng = 7, now = 0\<rparr>))\<lparr>now := 5 * hour\<rparr>"]
  by simp

end
